theory Spec2Isabelle
  imports Main "HOL-Library.Word"
begin

unbundle bit_operations_syntax

section \<open>Python values\<close>

text \<open>
  The packets delivered by the radio library and the records sent to the storage
  endpoint are JSON-like Python values. A \<open>float\<close> is kept as the 64 bits of its IEEE
  double; a \<open>dict\<close> is an association list in insertion order, read with \<open>map_of\<close>
  (the keys of a dict are distinct, so the first entry under a key is the only one).
\<close>

datatype pyval =
    VNone
  | VBool bool
  | VInt int
  | VFloat "64 word"
  | VStr string
  | VList "pyval list"
  | VDict "(string \<times> pyval) list"

type_synonym pydict = "(string \<times> pyval) list"

text \<open>
  Python truth value testing: \<open>None\<close>, \<open>False\<close>, a numeric zero (\<open>0\<close>, \<open>0.0\<close>, \<open>-0.0\<close>)
  and an empty string, list or dict are false; everything else is true. A double is a
  zero exactly when all its bits below the sign bit are clear.
\<close>

fun truthy :: "pyval \<Rightarrow> bool" where
  "truthy VNone = False"
| "truthy (VBool b) = b"
| "truthy (VInt i) = (i \<noteq> 0)"
| "truthy (VFloat w) = (push_bit 1 w \<noteq> 0)"
| "truthy (VStr s) = (s \<noteq> [])"
| "truthy (VList xs) = (xs \<noteq> [])"
| "truthy (VDict kvs) = (kvs \<noteq> [])"

text \<open>\<open>a or b\<close>: the first operand when it is true, else the second.\<close>

definition py_or :: "pyval \<Rightarrow> pyval \<Rightarrow> pyval" where
  "py_or a b = (if truthy a then a else b)"

text \<open>\<open>d.get(k)\<close>: the value stored under \<open>k\<close>, \<open>None\<close> when the key is missing.\<close>

definition dict_get :: "pydict \<Rightarrow> string \<Rightarrow> pyval" where
  "dict_get d k = (case map_of d k of None \<Rightarrow> VNone | Some v \<Rightarrow> v)"

text \<open>\<open>k in d\<close> for a dict \<open>d\<close>.\<close>

definition dict_has :: "pydict \<Rightarrow> string \<Rightarrow> bool" where
  "dict_has d k = (map_of d k \<noteq> None)"

section \<open>Record normalizer (raspberry\_pi\_meshtastic\_uploader.py)\<close>

text \<open>
  The three \<open>_format_*_metrics\<close> methods build one dict literal inside
  \<open>try: ... except Exception: return None\<close>. The only call that can raise is
  \<open>metrics.get\<close>, when \<open>metrics\<close> is not a dict (AttributeError); the result is then
  \<open>None\<close>. The argument \<open>ts\<close> is the text \<open>timestamp.isoformat()\<close>.
\<close>

fun format_device_metrics :: "string \<Rightarrow> pyval \<Rightarrow> pydict \<Rightarrow> string \<Rightarrow> pydict option" where
  "format_device_metrics node_id (VDict metrics) packet ts = Some
     [(''sensor_id'', VStr node_id),
      (''timestamp'', VStr ts),
      (''telemetry_type'', VStr ''device''),
      (''location'', VNone),
      (''voltage'', dict_get metrics ''voltage''),
      (''battery_level'', dict_get metrics ''batteryLevel''),
      (''air_util_tx'', dict_get metrics ''airUtilTx''),
      (''uptime_seconds'', dict_get metrics ''uptimeSeconds''),
      (''channel_utilization'', dict_get metrics ''channelUtilization''),
      (''temperature_c'', VNone),
      (''relative_humidity_pct'', VNone),
      (''barometric_pressure'', VNone),
      (''gas_resistance'', VNone),
      (''iaq'', VNone),
      (''wind_direction'', VNone),
      (''wind_speed'', VNone),
      (''pm25_ugm3'', VNone),
      (''pm10_ugm3'', VNone),
      (''pm100_ugm3'', VNone),
      (''pm1_ugm3'', VNone),
      (''ch3_voltage'', VNone),
      (''ch3_current'', VNone),
      (''rssi'', dict_get packet ''rxRssi''),
      (''snr'', dict_get packet ''rxSnr''),
      (''hop_limit'', dict_get packet ''hopLimit''),
      (''hop_start'', VNone),
      (''raw_data'', VDict metrics)]"
| "format_device_metrics node_id _ packet ts = None"

fun format_environment_metrics :: "string \<Rightarrow> pyval \<Rightarrow> pydict \<Rightarrow> string \<Rightarrow> pydict option" where
  "format_environment_metrics node_id (VDict metrics) packet ts = Some
     [(''sensor_id'', VStr node_id),
      (''timestamp'', VStr ts),
      (''telemetry_type'', VStr ''environment''),
      (''location'', VNone),
      (''voltage'', VNone),
      (''battery_level'', VNone),
      (''air_util_tx'', VNone),
      (''uptime_seconds'', VNone),
      (''channel_utilization'', VNone),
      (''temperature_c'', dict_get metrics ''temperature''),
      (''relative_humidity_pct'', dict_get metrics ''relativeHumidity''),
      (''barometric_pressure'', dict_get metrics ''barometricPressure''),
      (''gas_resistance'', dict_get metrics ''gasResistance''),
      (''iaq'', dict_get metrics ''iaq''),
      (''wind_direction'', dict_get metrics ''windDirection''),
      (''wind_speed'', dict_get metrics ''windSpeed''),
      (''pm25_ugm3'', VNone),
      (''pm10_ugm3'', VNone),
      (''pm100_ugm3'', VNone),
      (''pm1_ugm3'', VNone),
      (''ch3_voltage'', VNone),
      (''ch3_current'', VNone),
      (''rssi'', dict_get packet ''rxRssi''),
      (''snr'', dict_get packet ''rxSnr''),
      (''hop_limit'', VNone),
      (''hop_start'', VNone),
      (''raw_data'', VDict metrics)]"
| "format_environment_metrics node_id _ packet ts = None"

fun format_air_quality_metrics :: "string \<Rightarrow> pyval \<Rightarrow> pydict \<Rightarrow> string \<Rightarrow> pydict option" where
  "format_air_quality_metrics node_id (VDict metrics) packet ts = Some
     [(''sensor_id'', VStr node_id),
      (''timestamp'', VStr ts),
      (''telemetry_type'', VStr ''air_quality''),
      (''location'', VNone),
      (''voltage'', VNone),
      (''battery_level'', VNone),
      (''air_util_tx'', VNone),
      (''uptime_seconds'', VNone),
      (''channel_utilization'', VNone),
      (''temperature_c'', VNone),
      (''relative_humidity_pct'', VNone),
      (''barometric_pressure'', VNone),
      (''gas_resistance'', VNone),
      (''iaq'', VNone),
      (''wind_direction'', VNone),
      (''wind_speed'', VNone),
      (''pm25_ugm3'', py_or (dict_get metrics ''pm25Standard'') (dict_get metrics ''pm25Environmental'')),
      (''pm10_ugm3'', py_or (dict_get metrics ''pm10Standard'') (dict_get metrics ''pm10Environmental'')),
      (''pm100_ugm3'', py_or (dict_get metrics ''pm100Standard'') (dict_get metrics ''pm100Environmental'')),
      (''pm1_ugm3'', dict_get metrics ''pm10Standard''),
      (''ch3_voltage'', VNone),
      (''ch3_current'', VNone),
      (''rssi'', dict_get packet ''rxRssi''),
      (''snr'', dict_get packet ''rxSnr''),
      (''hop_limit'', VNone),
      (''hop_start'', VNone),
      (''raw_data'', VDict metrics)]"
| "format_air_quality_metrics node_id _ packet ts = None"

text \<open>The key set every record is expected to carry, and the three field groups.\<close>

definition record_keys :: "string list" where
  "record_keys =
     [''sensor_id'', ''timestamp'', ''telemetry_type'', ''location'',
      ''voltage'', ''battery_level'', ''air_util_tx'', ''uptime_seconds'', ''channel_utilization'',
      ''temperature_c'', ''relative_humidity_pct'', ''barometric_pressure'', ''gas_resistance'',
      ''iaq'', ''wind_direction'', ''wind_speed'',
      ''pm25_ugm3'', ''pm10_ugm3'', ''pm100_ugm3'', ''pm1_ugm3'',
      ''ch3_voltage'', ''ch3_current'', ''rssi'', ''snr'', ''hop_limit'', ''hop_start'',
      ''raw_data'']"

definition device_fields :: "string list" where
  "device_fields =
     [''voltage'', ''battery_level'', ''air_util_tx'', ''uptime_seconds'', ''channel_utilization'']"

definition environment_fields :: "string list" where
  "environment_fields =
     [''temperature_c'', ''relative_humidity_pct'', ''barometric_pressure'', ''gas_resistance'',
      ''iaq'', ''wind_direction'', ''wind_speed'']"

definition air_quality_fields :: "string list" where
  "air_quality_fields = [''pm25_ugm3'', ''pm10_ugm3'', ''pm100_ugm3'', ''pm1_ugm3'']"

section \<open>Upload queue and batch uploader (raspberry\_pi\_meshtastic\_uploader.py)\<close>

text \<open>
  What \<open>response.json()\<close> does on a response: return the parsed body, raise
  \<open>ValueError\<close> (the body is not JSON), or raise another exception (for instance
  \<open>RecursionError\<close> on a deeply nested body).
\<close>

datatype json_result =
    JsonValue pyval
  | JsonValueError
  | JsonOtherError

text \<open>
  What \<open>self.upload_session.post(url, json=batch, timeout=30)\<close> can do: return a
  response (its status code, and what \<open>response.json()\<close> does on it), raise a
  \<open>requests.exceptions.RequestException\<close> (timeout, refused connection, ...), or raise
  any other exception (for instance the \<open>TypeError\<close> of encoding a value that JSON
  cannot carry).
\<close>

datatype http_outcome =
    Response int json_result
  | RequestException
  | OtherException

type_synonym datetime = int

text \<open>
  The fields of \<open>MeshtasticTelemetryUploader\<close>. \<open>queue_lock\<close> is true while the
  \<open>threading.Lock\<close> is held. \<open>posts\<close> is not a field of the class: it lists the JSON
  bodies of the POST calls made so far, so that network I/O is visible in the state.
\<close>

record 'r uploader =
  upload_queue :: "'r list"
  queue_lock :: bool
  running :: bool
  last_upload :: datetime
  total_uploaded :: int
  posts :: "'r list list"

text \<open>\<open>__init__\<close>; \<open>now\<close> is the reading of \<open>datetime.now()\<close>.\<close>

definition init_uploader :: "datetime \<Rightarrow> 'r uploader" where
  "init_uploader now =
     \<lparr>upload_queue = [], queue_lock = False, running = True, last_upload = now,
      total_uploaded = 0, posts = []\<rparr>"

text \<open>
  A call either returns a value and a state, or is stopped at \<open>queue_lock\<close>: in a state
  where the lock is held, \<open>with self.queue_lock\<close> waits for the holder to release it, and
  \<open>Blocked\<close> carries the state at that point. When the holder is the calling thread itself
  the wait never ends: \<open>threading.Lock\<close> is not reentrant, and no other thread releases a
  lock it has not taken.
\<close>

datatype ('a, 's) run = Done 'a 's | Blocked 's

fun bind_run :: "('a, 's) run \<Rightarrow> ('a \<Rightarrow> 's \<Rightarrow> ('b, 's) run) \<Rightarrow> ('b, 's) run" where
  "bind_run (Done a s) f = f a s"
| "bind_run (Blocked s) f = Blocked s"

fun state_of :: "('a, 's) run \<Rightarrow> 's" where
  "state_of (Done a s) = s"
| "state_of (Blocked s) = s"

fun returns :: "('a, 's) run \<Rightarrow> bool" where
  "returns (Done a s) = True"
| "returns (Blocked s) = False"

text \<open>\<open>with self.queue_lock: body\<close>\<close>

definition with_lock ::
  "('r uploader \<Rightarrow> ('a, 'r uploader) run) \<Rightarrow> 'r uploader \<Rightarrow> ('a, 'r uploader) run" where
  "with_lock body s =
     (if queue_lock s then Blocked s
      else bind_run (body (s\<lparr>queue_lock := True\<rparr>)) (\<lambda>a s'. Done a (s'\<lparr>queue_lock := False\<rparr>)))"

text \<open>\<open>with self.queue_lock: self.upload_queue.append(r)\<close> (lines 97-98, 105-106, 113-114)\<close>

definition enqueue :: "'r \<Rightarrow> 'r uploader \<Rightarrow> (unit, 'r uploader) run" where
  "enqueue r = with_lock (\<lambda>s. Done () (s\<lparr>upload_queue := upload_queue s @ [r]\<rparr>))"

text \<open>\<open>with self.queue_lock: self.upload_queue.extend(batch)\<close> (lines 287-288, 293-294)\<close>

definition requeue :: "'r list \<Rightarrow> 'r uploader \<Rightarrow> (unit, 'r uploader) run" where
  "requeue batch = with_lock (\<lambda>s. Done () (s\<lparr>upload_queue := upload_queue s @ batch\<rparr>))"

text \<open>
  The state once \<open>session.post\<close> has been called (line 272), until it returns or raises.
\<close>

definition post_request :: "'r list \<Rightarrow> 'r uploader \<Rightarrow> 'r uploader" where
  "post_request batch s = s\<lparr>posts := posts s @ [batch]\<rparr>"

text \<open>
  The rest of \<open>_upload_batch\<close>, from the outcome of the POST on (lines 274-296). On
  status 200 or 201 the body is read with \<open>response.json()\<close>: a \<open>ValueError\<close> is caught
  on the spot and a parsed body only feeds the log message, but any other exception
  leaves the \<open>try\<close> block before the counter is touched. The last handler,
  \<open>except Exception\<close>, only logs.
\<close>

definition handle_outcome ::
  "'r list \<Rightarrow> http_outcome \<Rightarrow> datetime \<Rightarrow> 'r uploader \<Rightarrow> (unit, 'r uploader) run" where
  "handle_outcome batch outcome now s1 =
     (case outcome of
        Response status_code body \<Rightarrow>
          if status_code = 200 \<or> status_code = 201
          then (case body of
                  JsonOtherError \<Rightarrow> Done () s1
                | _ \<Rightarrow> Done () (s1\<lparr>total_uploaded := total_uploaded s1 + int (length batch),
                                      last_upload := now\<rparr>))
          else requeue batch s1
      | RequestException \<Rightarrow> requeue batch s1
      | OtherException \<Rightarrow> Done () s1)"

text \<open>\<open>_upload_batch\<close>\<close>

definition upload_batch ::
  "'r list \<Rightarrow> http_outcome \<Rightarrow> datetime \<Rightarrow> 'r uploader \<Rightarrow> (unit, 'r uploader) run" where
  "upload_batch batch outcome now s =
     (if batch = [] then Done () s
      else handle_outcome batch outcome now (post_request batch s))"

text \<open>
  The slice \<open>xs[:n]\<close> and the statement \<open>del xs[:n]\<close>; a negative \<open>n\<close> counts from the
  end of the list.
\<close>

definition slice_to :: "int \<Rightarrow> 'a list \<Rightarrow> 'a list" where
  "slice_to n xs = (if 0 \<le> n then take (nat n) xs else take (nat (int (length xs) + n)) xs)"

definition del_slice_to :: "int \<Rightarrow> 'a list \<Rightarrow> 'a list" where
  "del_slice_to n xs = (if 0 \<le> n then drop (nat n) xs else drop (nat (int (length xs) + n)) xs)"

text \<open>
  The locked region of \<open>_upload_worker\<close> (lines 242-248), with \<open>max_n\<close> for
  \<open>UPLOAD_BATCH_SIZE\<close>. On an empty queue the loop \<open>continue\<close>s; that is the empty batch
  here, which the \<open>if batch:\<close> after the region skips as well.
\<close>

definition drain :: "int \<Rightarrow> 'r uploader \<Rightarrow> ('r list, 'r uploader) run" where
  "drain max_n =
     with_lock (\<lambda>s.
       if length (upload_queue s) = 0 then Done [] s
       else Done (slice_to max_n (upload_queue s))
                 (s\<lparr>upload_queue := del_slice_to max_n (upload_queue s)\<rparr>))"

text \<open>
  One turn of the \<open>while self.running\<close> loop of \<open>_upload_worker\<close>, after its
  \<open>time.sleep\<close>. \<open>_upload_batch\<close> catches every exception itself, so the loop's own
  handler is never reached from it.
\<close>

definition upload_worker_tick ::
  "int \<Rightarrow> http_outcome \<Rightarrow> datetime \<Rightarrow> 'r uploader \<Rightarrow> (unit, 'r uploader) run" where
  "upload_worker_tick max_n outcome now s =
     bind_run (drain max_n s)
       (\<lambda>batch s'. if batch \<noteq> [] then upload_batch batch outcome now s' else Done () s')"

text \<open>
  \<open>shutdown\<close>. The batch handed to \<open>_upload_batch\<close> is the queue object itself, and the
  call is made with \<open>queue_lock\<close> held. Joining the worker thread (at most 10 seconds)
  changes no field.
\<close>

definition shutdown :: "http_outcome \<Rightarrow> datetime \<Rightarrow> 'r uploader \<Rightarrow> (unit, 'r uploader) run" where
  "shutdown outcome now s =
     with_lock (\<lambda>s1.
       if upload_queue s1 \<noteq> []
       then bind_run (upload_batch (upload_queue s1) outcome now s1)
              (\<lambda>_ s2. Done () (s2\<lparr>upload_queue := []\<rparr>))
       else Done () s1)
     (s\<lparr>running := False\<rparr>)"

text \<open>
  The state while the POST made by \<open>shutdown\<close> is in flight (line 319 calling line 272):
  the lock taken at line 316 is held.
\<close>

definition shutdown_in_flight :: "'r uploader \<Rightarrow> 'r uploader" where
  "shutdown_in_flight s =
     post_request (upload_queue s) (s\<lparr>running := False, queue_lock := True\<rparr>)"

text \<open>
  \<open>signal_handler\<close>: \<open>receiver.stop()\<close> touches the receiver only and catches its own
  errors; then \<open>uploader.shutdown()\<close>; then \<open>sys.exit(0)\<close>, whose exit code is the value
  returned here.
\<close>

definition signal_handler ::
  "http_outcome \<Rightarrow> datetime \<Rightarrow> 'r uploader \<Rightarrow> (int, 'r uploader) run" where
  "signal_handler outcome now s = bind_run (shutdown outcome now s) (\<lambda>_ s'. Done 0 s')"

text \<open>
  \<open>add_telemetry\<close>. Everything runs inside \<open>try: ... except Exception\<close>. When
  \<open>packet['decoded']\<close> or its \<open>'telemetry'\<close> entry is not a dict, the membership tests
  or the subscripts raise \<open>TypeError\<close> before anything is appended (or the tests are all
  false), so nothing is enqueued. \<open>if device_data:\<close> is false for \<open>None\<close> and for an empty
  dict.
\<close>

definition add_group :: "pydict option \<Rightarrow> pydict uploader \<Rightarrow> (unit, pydict uploader) run" where
  "add_group data s =
     (case data of
        None \<Rightarrow> Done () s
      | Some r \<Rightarrow> if r \<noteq> [] then enqueue r s else Done () s)"

definition add_telemetry ::
  "string \<Rightarrow> pydict \<Rightarrow> string \<Rightarrow> pydict uploader \<Rightarrow> (unit, pydict uploader) run" where
  "add_telemetry node_id packet ts s =
     (case map_of packet ''decoded'' of
        Some (VDict decoded) \<Rightarrow>
          (case map_of decoded ''telemetry'' of
             Some (VDict telemetry) \<Rightarrow>
               bind_run
                 (if dict_has telemetry ''deviceMetrics''
                  then add_group (format_device_metrics node_id
                                    (dict_get telemetry ''deviceMetrics'') packet ts) s
                  else Done () s)
               (\<lambda>_ s1. bind_run
                 (if dict_has telemetry ''environmentMetrics''
                  then add_group (format_environment_metrics node_id
                                    (dict_get telemetry ''environmentMetrics'') packet ts) s1
                  else Done () s1)
               (\<lambda>_ s2.
                  if dict_has telemetry ''airQualityMetrics''
                  then add_group (format_air_quality_metrics node_id
                                    (dict_get telemetry ''airQualityMetrics'') packet ts) s2
                  else Done () s2))
           | _ \<Rightarrow> Done () s)
      | _ \<Rightarrow> Done () s)"

section \<open>SupabaseUploader (raspberry\_pi\_supabase\_uploader.py)\<close>

text \<open>The dataclass \<open>SensorReading\<close>; an \<open>Optional\<close> field holds \<open>VNone\<close> when unset.\<close>

record sensor_reading =
  sensor_id :: string
  timestamp :: string
  latitude :: pyval
  longitude :: pyval
  altitude_m :: pyval
  pm25_ugm3 :: pyval
  pm10_ugm3 :: pyval
  temperature_c :: pyval
  relative_humidity_pct :: pyval
  voltage :: pyval
  battery_level :: pyval
  air_util_tx :: pyval
  uptime_seconds :: pyval
  rssi :: pyval
  snr :: pyval
  raw_data :: pyval

text \<open>\<open>if v is not None: data[k] = v\<close>\<close>

definition opt_field :: "string \<Rightarrow> pyval \<Rightarrow> pydict" where
  "opt_field k v = (if v \<noteq> VNone then [(k, v)] else [])"

text \<open>The dict \<open>data\<close> built for one reading in \<open>upload_batch\<close> (lines 104-140).\<close>

definition reading_payload :: "sensor_reading \<Rightarrow> pydict" where
  "reading_payload reading =
     [(''sensor_id'', VStr (sensor_id reading)), (''timestamp'', VStr (timestamp reading))]
     @ (if latitude reading \<noteq> VNone \<and> longitude reading \<noteq> VNone
        then [(''location'', VDict [(''latitude'', latitude reading),
                                    (''longitude'', longitude reading)])]
        else [])
     @ opt_field ''pm25_ugm3'' (pm25_ugm3 reading)
     @ opt_field ''pm10_ugm3'' (pm10_ugm3 reading)
     @ opt_field ''temperature_c'' (temperature_c reading)
     @ opt_field ''relative_humidity_pct'' (relative_humidity_pct reading)
     @ opt_field ''altitude_m'' (altitude_m reading)
     @ opt_field ''voltage'' (voltage reading)
     @ opt_field ''battery_level'' (battery_level reading)
     @ opt_field ''air_util_tx'' (air_util_tx reading)
     @ opt_field ''uptime_seconds'' (uptime_seconds reading)
     @ opt_field ''rssi'' (rssi reading)
     @ opt_field ''snr'' (snr reading)"

text \<open>
  The fields of \<open>SupabaseUploader\<close> that change; \<open>sb_posts\<close> lists the JSON bodies of the
  POST calls made so far.
\<close>

record supabase_uploader =
  pending_readings :: "sensor_reading list"
  sb_posts :: "pydict list list"

text \<open>
  \<open>SupabaseUploader.upload_batch\<close>. On status 200 the body is read with
  \<open>response.json()\<close> and \<open>result.get\<close>; when \<open>response.json()\<close> raises, or returns
  something that is not a JSON object, the handler \<open>except Exception\<close> logs and the
  pending readings stay.
\<close>

definition sb_upload_batch :: "http_outcome \<Rightarrow> supabase_uploader \<Rightarrow> supabase_uploader" where
  "sb_upload_batch outcome s =
     (if pending_readings s = [] then s
      else
        let s1 = s\<lparr>sb_posts := sb_posts s @ [map reading_payload (pending_readings s)]\<rparr> in
        case outcome of
          Response status_code body \<Rightarrow>
            if status_code = 200
            then (case body of
                    JsonValue (VDict result) \<Rightarrow> s1\<lparr>pending_readings := []\<rparr>
                  | _ \<Rightarrow> s1)
            else s1
        | _ \<Rightarrow> s1)"

text \<open>\<open>SupabaseUploader.add_reading\<close>, with \<open>batch_size\<close> for \<open>BATCH_SIZE\<close>.\<close>

definition add_reading ::
  "int \<Rightarrow> sensor_reading \<Rightarrow> http_outcome \<Rightarrow> supabase_uploader \<Rightarrow> supabase_uploader" where
  "add_reading batch_size reading outcome s =
     (let s1 = s\<lparr>pending_readings := pending_readings s @ [reading]\<rparr> in
      if int (length (pending_readings s1)) \<ge> batch_size
      then sb_upload_batch outcome s1
      else s1)"

section \<open>Vocabulary of the properties\<close>

text \<open>The value a produced record holds under a key, if a record was produced.\<close>

definition record_field :: "pydict option \<Rightarrow> string \<Rightarrow> pyval option" where
  "record_field r k = (case r of None \<Rightarrow> None | Some d \<Rightarrow> map_of d k)"

text \<open>
  The outcomes \<open>_upload_batch\<close> treats as a success (status 200 or 201, lines 274-283,
  with the body read without an exception other than \<open>ValueError\<close>), and the failures
  of an upload in the sense of a rejected status or a network or transport error.
\<close>

fun accepted :: "http_outcome \<Rightarrow> bool" where
  "accepted (Response status_code body) =
     ((status_code = 200 \<or> status_code = 201) \<and> body \<noteq> JsonOtherError)"
| "accepted RequestException = False"
| "accepted OtherException = False"

fun failed :: "http_outcome \<Rightarrow> bool" where
  "failed (Response status_code body) = (\<not> (status_code = 200 \<or> status_code = 201))"
| "failed RequestException = True"
| "failed OtherException = False"

text \<open>
  The two paths that end in the handler \<open>except Exception\<close>: the POST raises an
  exception that is not a \<open>RequestException\<close>, or the status is 200 or 201 and reading the
  body raises an exception that is not a \<open>ValueError\<close>. The batch is neither counted nor
  re-queued.
\<close>

definition dropped :: "http_outcome \<Rightarrow> bool" where
  "dropped outcome = (\<not> accepted outcome \<and> \<not> failed outcome)"

text \<open>The call returns and leaves \<open>queue_lock\<close> free.\<close>

fun returns_free :: "('a, 'r uploader) run \<Rightarrow> bool" where
  "returns_free (Done a s) = (\<not> queue_lock s)"
| "returns_free (Blocked s) = False"

text \<open>Running one call after another.\<close>

definition then_run :: "(unit, 's) run \<Rightarrow> ('s \<Rightarrow> (unit, 's) run) \<Rightarrow> (unit, 's) run" where
  "then_run m f = bind_run m (\<lambda>_. f)"

text \<open>Sample data for the concrete runs below.\<close>

definition sample_record :: "string \<Rightarrow> pydict" where
  "sample_record node_id = [(''sensor_id'', VStr node_id), (''telemetry_type'', VStr ''device'')]"

definition sample_reading :: sensor_reading where
  "sample_reading =
     \<lparr>sensor_id = ''test_sensor'', timestamp = ''2025-01-01T00:00:00+00:00'',
      latitude = VNone, longitude = VNone, altitude_m = VNone, pm25_ugm3 = VNone,
      pm10_ugm3 = VNone, temperature_c = VNone, relative_humidity_pct = VNone,
      voltage = VNone, battery_level = VInt 85, air_util_tx = VNone,
      uptime_seconds = VNone, rssi = VNone, snr = VNone, raw_data = VNone\<rparr>"

definition sample_packet :: pydict where
  "sample_packet =
     [(''fromId'', VStr ''!a1''), (''rxRssi'', VInt (-70)),
      (''decoded'', VDict [(''portnum'', VStr ''TELEMETRY_APP''),
         (''telemetry'', VDict [(''deviceMetrics'', VDict [(''batteryLevel'', VInt 90)])])])]"

definition five_records :: "pydict list" where
  "five_records =
     [sample_record ''A'', sample_record ''B'', sample_record ''C'', sample_record ''D'',
      sample_record ''E'']"

text \<open>\<open>SupabaseUploader.__init__\<close>\<close>

definition init_supabase :: supabase_uploader where
  "init_supabase = \<lparr>pending_readings = [], sb_posts = []\<rparr>"

section \<open>The lock and the queue operations\<close>

lemma requeue_free:
  "\<not> queue_lock s \<Longrightarrow> requeue batch s = Done () (s\<lparr>upload_queue := upload_queue s @ batch\<rparr>)"
  by (simp add: requeue_def with_lock_def)

lemma enqueue_free:
  "\<not> queue_lock s \<Longrightarrow> enqueue r s = Done () (s\<lparr>upload_queue := upload_queue s @ [r]\<rparr>)"
  by (simp add: enqueue_def with_lock_def)

lemma drain_free:
  "\<not> queue_lock s \<Longrightarrow>
   drain n s = Done (slice_to n (upload_queue s))
                    (s\<lparr>upload_queue := del_slice_to n (upload_queue s)\<rparr>)"
  by (simp add: drain_def with_lock_def slice_to_def del_slice_to_def)

lemma slice_to_del_slice_to: "slice_to n xs @ del_slice_to n xs = xs"
  by (simp add: slice_to_def del_slice_to_def)



section \<open>One upload attempt\<close>

lemma upload_batch_accepted:
  "batch \<noteq> [] \<Longrightarrow> accepted outcome \<Longrightarrow>
   upload_batch batch outcome now s =
     Done () (s\<lparr>posts := posts s @ [batch],
                  total_uploaded := total_uploaded s + int (length batch),
                  last_upload := now\<rparr>)"
  by (cases outcome)
     (auto simp add: upload_batch_def handle_outcome_def post_request_def
       split: json_result.splits)

lemma upload_batch_failed:
  "batch \<noteq> [] \<Longrightarrow> failed outcome \<Longrightarrow> \<not> queue_lock s \<Longrightarrow>
   upload_batch batch outcome now s =
     Done () (s\<lparr>posts := posts s @ [batch], upload_queue := upload_queue s @ batch\<rparr>)"
  by (cases outcome)
     (simp_all add: upload_batch_def handle_outcome_def post_request_def requeue_free)

lemma upload_batch_failed_locked:
  "batch \<noteq> [] \<Longrightarrow> failed outcome \<Longrightarrow> queue_lock s \<Longrightarrow>
   upload_batch batch outcome now s = Blocked (s\<lparr>posts := posts s @ [batch]\<rparr>)"
  by (cases outcome)
     (simp_all add: upload_batch_def handle_outcome_def post_request_def requeue_def
       with_lock_def)

lemma upload_batch_dropped:
  "batch \<noteq> [] \<Longrightarrow> dropped outcome \<Longrightarrow>
   upload_batch batch outcome now s = Done () (s\<lparr>posts := posts s @ [batch]\<rparr>)"
  by (cases outcome)
     (auto simp add: dropped_def upload_batch_def handle_outcome_def post_request_def
       split: json_result.splits)

lemma outcome_cases: "accepted outcome \<or> failed outcome \<or> dropped outcome"
  by (auto simp add: dropped_def)

text \<open>
  C4. For a non-empty batch and a response whose body is read without an exception
  other than \<open>ValueError\<close>, the upload is treated as a success (the call returns, the
  queue is untouched, the counter is raised by the batch size, the last-success time is
  set) exactly when the status code is 200 or 201, whoever calls. Any other status code,
  2xx or not, is a failure: called with the lock free, as the worker does, the batch is
  put back at the tail of the queue, and neither the counter nor the time changes.
\<close>

theorem success_iff_200_or_201:
  assumes "batch \<noteq> []" and "body \<noteq> JsonOtherError"
  shows "((returns (upload_batch batch (Response status_code body) now s)
           \<and> upload_queue (state_of (upload_batch batch (Response status_code body) now s))
               = upload_queue s
           \<and> total_uploaded (state_of (upload_batch batch (Response status_code body) now s))
               = total_uploaded s + int (length batch)
           \<and> last_upload (state_of (upload_batch batch (Response status_code body) now s)) = now)
          \<longleftrightarrow> (status_code = 200 \<or> status_code = 201))
     \<and> (\<not> (status_code = 200 \<or> status_code = 201) \<and> \<not> queue_lock s \<longrightarrow>
          returns (upload_batch batch (Response status_code body) now s)
          \<and> upload_queue (state_of (upload_batch batch (Response status_code body) now s))
              = upload_queue s @ batch
          \<and> total_uploaded (state_of (upload_batch batch (Response status_code body) now s))
              = total_uploaded s
          \<and> last_upload (state_of (upload_batch batch (Response status_code body) now s))
              = last_upload s)"
proof (cases "status_code = 200 \<or> status_code = 201")
  case True
  with assms(2) have "accepted (Response status_code body)" by simp
  from upload_batch_accepted [OF assms(1) this] True show ?thesis by simp
next
  case False
  then have f: "failed (Response status_code body)" by simp
  show ?thesis
  proof (cases "queue_lock s")
    case True
    from upload_batch_failed_locked [OF assms(1) f True] False True show ?thesis by simp
  next
    case nl: False
    from upload_batch_failed [OF assms(1) f nl] False assms(1) show ?thesis by simp
  qed
qed

theorem success_iff_200_or_201_witness:
  "[sample_record ''A''] \<noteq> [] \<and> JsonValueError \<noteq> JsonOtherError
   \<and> \<not> queue_lock (init_uploader 0 :: pydict uploader)
   \<and> returns (upload_batch [sample_record ''A''] (Response 201 JsonValueError) 5 (init_uploader 0))
   \<and> upload_queue (state_of (upload_batch [sample_record ''A''] (Response 201 JsonValueError) 5
        (init_uploader 0))) = []
   \<and> total_uploaded (state_of (upload_batch [sample_record ''A''] (Response 201 JsonValueError) 5
        (init_uploader 0))) = 1
   \<and> last_upload (state_of (upload_batch [sample_record ''A''] (Response 201 JsonValueError) 5
        (init_uploader 0))) = 5
   \<and> upload_queue (state_of (upload_batch [sample_record ''A''] (Response 500 JsonValueError) 5
        (init_uploader 0))) = [sample_record ''A'']
   \<and> total_uploaded (state_of (upload_batch [sample_record ''A''] (Response 500 JsonValueError) 5
        (init_uploader 0))) = 0"
  using success_iff_200_or_201 [of "[sample_record ''A'']" JsonValueError 201 5 "init_uploader 0"]
    success_iff_200_or_201 [of "[sample_record ''A'']" JsonValueError 500 5 "init_uploader 0"]
  by (simp add: init_uploader_def)

theorem status_204_counterexample:
  "(200::int) \<le> 204 \<and> (204::int) < 300
   \<and> upload_queue (state_of (upload_batch [sample_record ''A''] (Response 204 JsonValueError) 5
        (init_uploader 0))) = [sample_record ''A'']
   \<and> total_uploaded (state_of (upload_batch [sample_record ''A''] (Response 204 JsonValueError) 5
        (init_uploader 0))) = 0
   \<and> last_upload (state_of (upload_batch [sample_record ''A''] (Response 204 JsonValueError) 5
        (init_uploader 0))) = 0"
  by (simp add: upload_batch_def handle_outcome_def post_request_def requeue_def with_lock_def
      init_uploader_def)

text \<open>
  C2. A worker tick drains the one queued record; the POST raises an exception that is
  not a \<open>RequestException\<close>. The tick returns with the queue empty: the batch is not put
  back.
\<close>

theorem unexpected_error_drops_batch:
  "upload_worker_tick 10 OtherException 9
     (state_of (enqueue (sample_record ''A'') (init_uploader 0)))
   = Done () ((init_uploader 0)\<lparr>posts := [[sample_record ''A'']]\<rparr>)
   \<and> upload_queue ((init_uploader 0 :: pydict uploader)\<lparr>posts := [[sample_record ''A'']]\<rparr>) = []"
  by (simp add: upload_worker_tick_def drain_def slice_to_def del_slice_to_def with_lock_def
      upload_batch_def handle_outcome_def post_request_def enqueue_def init_uploader_def)

text \<open>
  The same handler is reached on status 200 when reading the body raises an exception
  that is not a \<open>ValueError\<close>.
\<close>

lemma unreadable_body_drops_batch:
  "upload_worker_tick 10 (Response 200 JsonOtherError) 9
     (state_of (enqueue (sample_record ''A'') (init_uploader 0)))
   = Done () ((init_uploader 0)\<lparr>posts := [[sample_record ''A'']]\<rparr>)"
  by (simp add: upload_worker_tick_def drain_def slice_to_def del_slice_to_def with_lock_def
      upload_batch_def handle_outcome_def post_request_def enqueue_def init_uploader_def)

section \<open>Shutdown\<close>

text \<open>
  Entered with the lock free, \<open>shutdown\<close> makes exactly one POST carrying the whole
  queue when the queue is not empty, and none when it is empty, whatever the outcome of
  the POST; no batch size enters the call.
\<close>

lemma shutdown_posts_whole_queue:
  assumes "\<not> queue_lock s"
  shows "posts (state_of (shutdown outcome now s)) =
           posts s @ (if upload_queue s = [] then [] else [upload_queue s])"
proof (cases "upload_queue s = []")
  case True
  with assms show ?thesis by (simp add: shutdown_def with_lock_def)
next
  case False
  from outcome_cases [of outcome] show ?thesis
  proof (elim disjE)
    assume "accepted outcome"
    with False assms show ?thesis
      by (simp add: shutdown_def with_lock_def upload_batch_accepted)
  next
    assume "failed outcome"
    with False assms show ?thesis
      by (simp add: shutdown_def with_lock_def upload_batch_failed_locked)
  next
    assume "dropped outcome"
    with False assms show ?thesis
      by (simp add: shutdown_def with_lock_def upload_batch_dropped)
  qed
qed

text \<open>
  While the POST of \<open>shutdown\<close> is in flight the state is \<open>shutdown_in_flight\<close>; on a
  failed upload the call stays there.
\<close>

lemma shutdown_from_in_flight:
  assumes "\<not> queue_lock s" and "upload_queue s \<noteq> []"
  shows "shutdown outcome now s =
           bind_run
             (bind_run (handle_outcome (upload_queue s) outcome now (shutdown_in_flight s))
                (\<lambda>_ s2. Done () (s2\<lparr>upload_queue := []\<rparr>)))
             (\<lambda>a s'. Done a (s'\<lparr>queue_lock := False\<rparr>))"
  using assms
  by (simp add: shutdown_def with_lock_def upload_batch_def shutdown_in_flight_def
      post_request_def)

lemma shutdown_stuck_in_flight:
  assumes "\<not> queue_lock s" and "upload_queue s \<noteq> []" and "failed outcome"
  shows "shutdown outcome now s = Blocked (shutdown_in_flight s)"
  using assms
  by (simp add: shutdown_def with_lock_def upload_batch_failed_locked shutdown_in_flight_def
      post_request_def)

text \<open>
  \<open>shutdown\<close> returns unless the queue held records and the final upload failed with a
  rejected status or a network error; when it returns, the queue is empty.
\<close>

lemma shutdown_returns:
  assumes "\<not> queue_lock s"
  shows "returns (shutdown outcome now s) \<longleftrightarrow> (upload_queue s = [] \<or> \<not> failed outcome)"
proof (cases "upload_queue s = []")
  case True
  with assms show ?thesis by (simp add: shutdown_def with_lock_def)
next
  case False
  from outcome_cases [of outcome] show ?thesis
  proof (elim disjE)
    assume a: "accepted outcome"
    then have "\<not> failed outcome" by (cases outcome) auto
    with a False assms show ?thesis
      by (simp add: shutdown_def with_lock_def upload_batch_accepted)
  next
    assume "failed outcome"
    with False assms show ?thesis
      by (simp add: shutdown_stuck_in_flight)
  next
    assume d: "dropped outcome"
    then have "\<not> failed outcome" by (simp add: dropped_def)
    with d False assms show ?thesis
      by (simp add: shutdown_def with_lock_def upload_batch_dropped)
  qed
qed

lemma shutdown_returned_empty:
  assumes "\<not> queue_lock s" and "shutdown outcome now s = Done u s'"
  shows "upload_queue s' = [] \<and> \<not> queue_lock s'"
proof (cases "upload_queue s = []")
  case True
  with assms show ?thesis by (auto simp add: shutdown_def with_lock_def)
next
  case False
  from outcome_cases [of outcome] show ?thesis
  proof (elim disjE)
    assume "accepted outcome"
    with False assms show ?thesis
      by (auto simp add: shutdown_def with_lock_def upload_batch_accepted)
  next
    assume "failed outcome"
    with False assms show ?thesis
      by (simp add: shutdown_stuck_in_flight)
  next
    assume "dropped outcome"
    with False assms show ?thesis
      by (auto simp add: shutdown_def with_lock_def upload_batch_dropped)
  qed
qed

text \<open>
  C7. Five records are queued when the signal handler runs, and the final POST ends in
  a timeout, a \<open>RequestException\<close>. One POST carrying all five records has been made; then
  the failure path requests the lock that \<open>shutdown\<close> holds, \<open>shutdown\<close> does not return and
  the handler never reaches \<open>sys.exit\<close>.
\<close>

theorem shutdown_timeout_never_exits:
  "posts (state_of (signal_handler RequestException 9
      ((init_uploader 0)\<lparr>upload_queue := five_records\<rparr>))) = [five_records]
   \<and> length five_records = 5
   \<and> \<not> returns (shutdown RequestException 9 ((init_uploader 0)\<lparr>upload_queue := five_records\<rparr>))
   \<and> \<not> returns (signal_handler RequestException 9
        ((init_uploader 0)\<lparr>upload_queue := five_records\<rparr>))"
  by (simp add: signal_handler_def shutdown_def with_lock_def upload_batch_def
      handle_outcome_def post_request_def requeue_def init_uploader_def five_records_def)

text \<open>
  C10. One record is queued and the final POST is answered with status 500, or fails
  with a network error. The failure path requests the lock that \<open>shutdown\<close> itself
  holds: the call never returns, the batch is not re-added and the queue is not cleared.
\<close>

theorem shutdown_failed_flush_blocks:
  "\<not> returns (shutdown (Response 500 JsonValueError) 9
        (state_of (enqueue (sample_record ''A'') (init_uploader 0))))
   \<and> upload_queue (state_of (shutdown (Response 500 JsonValueError) 9
        (state_of (enqueue (sample_record ''A'') (init_uploader 0))))) = [sample_record ''A'']
   \<and> \<not> returns (shutdown RequestException 9
        (state_of (enqueue (sample_record ''A'') (init_uploader 0))))
   \<and> upload_queue (state_of (shutdown RequestException 9
        (state_of (enqueue (sample_record ''A'') (init_uploader 0))))) = [sample_record ''A'']"
  by (simp add: shutdown_def with_lock_def upload_batch_def handle_outcome_def post_request_def
      requeue_def enqueue_def init_uploader_def)

section \<open>The normalizer\<close>

lemma record_keys_distinct: "distinct record_keys"
  by (simp add: record_keys_def)

text \<open>
  C8. Every record the three formatters produce has the same 27 keys, in the same
  order; the fields of its own group are the values looked up in the metrics dict, and
  every field of the two other groups is present and holds \<open>None\<close>.
\<close>

theorem record_shape:
  "(format_device_metrics node_id metrics packet ts = Some r \<longrightarrow>
      map fst r = record_keys
      \<and> map_of r ''telemetry_type'' = Some (VStr ''device'')
      \<and> (\<exists>m. metrics = VDict m
            \<and> map_of r ''voltage'' = Some (dict_get m ''voltage'')
            \<and> map_of r ''battery_level'' = Some (dict_get m ''batteryLevel'')
            \<and> map_of r ''air_util_tx'' = Some (dict_get m ''airUtilTx'')
            \<and> map_of r ''uptime_seconds'' = Some (dict_get m ''uptimeSeconds'')
            \<and> map_of r ''channel_utilization'' = Some (dict_get m ''channelUtilization''))
      \<and> (\<forall>k \<in> set (environment_fields @ air_quality_fields). map_of r k = Some VNone))
   \<and> (format_environment_metrics node_id metrics packet ts = Some r \<longrightarrow>
      map fst r = record_keys
      \<and> map_of r ''telemetry_type'' = Some (VStr ''environment'')
      \<and> (\<exists>m. metrics = VDict m
            \<and> map_of r ''temperature_c'' = Some (dict_get m ''temperature'')
            \<and> map_of r ''relative_humidity_pct'' = Some (dict_get m ''relativeHumidity'')
            \<and> map_of r ''barometric_pressure'' = Some (dict_get m ''barometricPressure'')
            \<and> map_of r ''gas_resistance'' = Some (dict_get m ''gasResistance'')
            \<and> map_of r ''iaq'' = Some (dict_get m ''iaq'')
            \<and> map_of r ''wind_direction'' = Some (dict_get m ''windDirection'')
            \<and> map_of r ''wind_speed'' = Some (dict_get m ''windSpeed''))
      \<and> (\<forall>k \<in> set (device_fields @ air_quality_fields). map_of r k = Some VNone))
   \<and> (format_air_quality_metrics node_id metrics packet ts = Some r \<longrightarrow>
      map fst r = record_keys
      \<and> map_of r ''telemetry_type'' = Some (VStr ''air_quality'')
      \<and> (\<exists>m. metrics = VDict m
            \<and> map_of r ''pm25_ugm3'' =
                Some (py_or (dict_get m ''pm25Standard'') (dict_get m ''pm25Environmental''))
            \<and> map_of r ''pm10_ugm3'' =
                Some (py_or (dict_get m ''pm10Standard'') (dict_get m ''pm10Environmental''))
            \<and> map_of r ''pm100_ugm3'' =
                Some (py_or (dict_get m ''pm100Standard'') (dict_get m ''pm100Environmental''))
            \<and> map_of r ''pm1_ugm3'' = Some (dict_get m ''pm10Standard''))
      \<and> (\<forall>k \<in> set (device_fields @ environment_fields). map_of r k = Some VNone))"
proof (cases metrics)
  case (VDict m)
  then show ?thesis
    by (auto simp add: record_keys_def device_fields_def environment_fields_def
        air_quality_fields_def)
qed simp_all

theorem record_shape_witness:
  "format_device_metrics ''!a1'' (VDict [(''batteryLevel'', VInt 90)]) [(''rxRssi'', VInt (-70))]
     ''2025-01-01T00:00:00+00:00''
   = Some (the (format_device_metrics ''!a1'' (VDict [(''batteryLevel'', VInt 90)])
        [(''rxRssi'', VInt (-70))] ''2025-01-01T00:00:00+00:00''))
   \<and> map fst (the (format_device_metrics ''!a1'' (VDict [(''batteryLevel'', VInt 90)])
        [(''rxRssi'', VInt (-70))] ''2025-01-01T00:00:00+00:00'')) = record_keys
   \<and> ''temperature_c'' \<in> set (environment_fields @ air_quality_fields)
   \<and> map_of (the (format_device_metrics ''!a1'' (VDict [(''batteryLevel'', VInt 90)])
        [(''rxRssi'', VInt (-70))] ''2025-01-01T00:00:00+00:00'')) ''temperature_c'' = Some VNone
   \<and> format_environment_metrics ''!a1'' (VDict [(''temperature'', VInt 21)]) []
        ''2025-01-01T00:00:00+00:00''
      = Some (the (format_environment_metrics ''!a1'' (VDict [(''temperature'', VInt 21)]) []
        ''2025-01-01T00:00:00+00:00''))
   \<and> map_of (the (format_environment_metrics ''!a1'' (VDict [(''temperature'', VInt 21)]) []
        ''2025-01-01T00:00:00+00:00'')) ''voltage'' = Some VNone
   \<and> format_air_quality_metrics ''!a1'' (VDict [(''pm25Standard'', VInt 12)]) []
        ''2025-01-01T00:00:00+00:00''
      = Some (the (format_air_quality_metrics ''!a1'' (VDict [(''pm25Standard'', VInt 12)]) []
        ''2025-01-01T00:00:00+00:00''))
   \<and> map_of (the (format_air_quality_metrics ''!a1'' (VDict [(''pm25Standard'', VInt 12)]) []
        ''2025-01-01T00:00:00+00:00'')) ''voltage'' = Some VNone"
  using
    record_shape [of "''!a1''" "VDict [(''batteryLevel'', VInt 90)]" "[(''rxRssi'', VInt (-70))]"
      "''2025-01-01T00:00:00+00:00''"
      "the (format_device_metrics ''!a1'' (VDict [(''batteryLevel'', VInt 90)])
        [(''rxRssi'', VInt (-70))] ''2025-01-01T00:00:00+00:00'')"]
    record_shape [of "''!a1''" "VDict [(''temperature'', VInt 21)]" "[]"
      "''2025-01-01T00:00:00+00:00''"
      "the (format_environment_metrics ''!a1'' (VDict [(''temperature'', VInt 21)]) []
        ''2025-01-01T00:00:00+00:00'')"]
    record_shape [of "''!a1''" "VDict [(''pm25Standard'', VInt 12)]" "[]"
      "''2025-01-01T00:00:00+00:00''"
      "the (format_air_quality_metrics ''!a1'' (VDict [(''pm25Standard'', VInt 12)]) []
        ''2025-01-01T00:00:00+00:00'')"]
  by (simp add: environment_fields_def air_quality_fields_def device_fields_def)

text \<open>
  Where the air-quality rule does hold: a standard reading that is neither missing nor
  a zero is taken as it is, a missing one (or an explicit \<open>None\<close>) falls back to the
  environmental reading, and \<open>pm1_ugm3\<close> is the \<open>pm10Standard\<close> value.
\<close>

lemma py_or_prefers_nonzero:
  "truthy a \<or> a = VNone \<Longrightarrow> py_or a b = (if a \<noteq> VNone then a else b)"
  by (auto simp add: py_or_def)

lemma air_quality_pm1:
  "record_field (format_air_quality_metrics node_id (VDict m) packet ts) ''pm1_ugm3''
     = Some (dict_get m ''pm10Standard'')"
  by (simp add: record_field_def)

lemma air_quality_pm25_nonzero:
  "truthy (dict_get m ''pm25Standard'') \<or> dict_get m ''pm25Standard'' = VNone \<Longrightarrow>
   record_field (format_air_quality_metrics node_id (VDict m) packet ts) ''pm25_ugm3''
     = Some (if dict_get m ''pm25Standard'' \<noteq> VNone then dict_get m ''pm25Standard''
             else dict_get m ''pm25Environmental'')"
  by (simp add: record_field_def py_or_prefers_nonzero)

text \<open>
  C1. A standard PM2.5 reading of 0 is present in the metrics, yet the record carries
  the environmental reading 7; with no environmental reading it carries \<open>None\<close>. The same
  \<open>or\<close> is used for PM10 and PM100.
\<close>

theorem air_quality_zero_standard_reading:
  "record_field (format_air_quality_metrics ''!a1''
       (VDict [(''pm25Standard'', VInt 0), (''pm25Environmental'', VInt 7)]) []
       ''2025-01-01T00:00:00+00:00'') ''pm25_ugm3'' = Some (VInt 7)
   \<and> record_field (format_air_quality_metrics ''!a1''
       (VDict [(''pm25Standard'', VInt 0)]) []
       ''2025-01-01T00:00:00+00:00'') ''pm25_ugm3'' = Some VNone
   \<and> record_field (format_air_quality_metrics ''!a1''
       (VDict [(''pm10Standard'', VInt 0), (''pm10Environmental'', VInt 7)]) []
       ''2025-01-01T00:00:00+00:00'') ''pm10_ugm3'' = Some (VInt 7)
   \<and> record_field (format_air_quality_metrics ''!a1''
       (VDict [(''pm100Standard'', VInt 0), (''pm100Environmental'', VInt 7)]) []
       ''2025-01-01T00:00:00+00:00'') ''pm100_ugm3'' = Some (VInt 7)"
  by (simp add: record_field_def py_or_def dict_get_def)

section \<open>Ticks of the upload worker\<close>

lemma drain_leaves_lock_free:
  assumes "\<not> queue_lock s0" and "drain max_n s0 = Done batch s"
  shows "\<not> queue_lock s \<and> total_uploaded s = total_uploaded s0 \<and> posts s = posts s0
     \<and> batch @ upload_queue s = upload_queue s0"
  using assms by (auto simp add: drain_free slice_to_del_slice_to)

lemma tick_from_in_flight:
  assumes "\<not> queue_lock s0" and "drain max_n s0 = Done batch s" and "batch \<noteq> []"
  shows "upload_worker_tick max_n outcome now s0 =
           handle_outcome batch outcome now (post_request batch s)"
  using assms by (simp add: upload_worker_tick_def upload_batch_def)



text \<open>
  C3. Records \<open>A\<close>, \<open>B\<close>, \<open>C\<close> are enqueued on a fresh uploader, batch size 2. The first
  tick drains \<open>[A, B]\<close>; its upload fails and the batch is appended behind \<open>C\<close>: the
  queue is \<open>[C, A, B]\<close>. The second tick drains \<open>[C, A]\<close>; its upload is accepted, the
  queue is \<open>[B]\<close> and the counter is 2.
\<close>

theorem requeue_at_tail_scenario:
  assumes "failed f" and "accepted g"
  shows "\<exists>s0 s1 s2.
      then_run (then_run (enqueue A (init_uploader t0)) (enqueue B)) (enqueue C) = Done () s0
    \<and> upload_queue s0 = [A, B, C]
    \<and> drain 2 s0 = Done [A, B] (s0\<lparr>upload_queue := [C]\<rparr>)
    \<and> upload_worker_tick 2 f t1 s0 = Done () s1
    \<and> upload_queue s1 = [C, A, B] \<and> total_uploaded s1 = 0
    \<and> drain 2 s1 = Done [C, A] (s1\<lparr>upload_queue := [B]\<rparr>)
    \<and> upload_worker_tick 2 g t2 s1 = Done () s2
    \<and> upload_queue s2 = [B] \<and> total_uploaded s2 = 2"
proof -
  let ?s0 = "(init_uploader t0)\<lparr>upload_queue := [A, B, C]\<rparr>"
  let ?s1 = "(init_uploader t0)\<lparr>posts := [[A, B]], upload_queue := [C, A, B]\<rparr>"
  let ?s2 = "(init_uploader t0)\<lparr>posts := [[A, B], [C, A]], upload_queue := [B],
               total_uploaded := 2, last_upload := t2\<rparr>"
  have e: "then_run (then_run (enqueue A (init_uploader t0)) (enqueue B)) (enqueue C)
             = Done () ?s0"
    by (simp add: then_run_def enqueue_def with_lock_def init_uploader_def)
  have d0: "drain 2 ?s0 = Done [A, B] (?s0\<lparr>upload_queue := [C]\<rparr>)"
    by (simp add: drain_def with_lock_def slice_to_def del_slice_to_def init_uploader_def)
  have u0: "upload_batch [A, B] f t1 ((init_uploader t0)\<lparr>upload_queue := [C]\<rparr>)
             = Done () ?s1"
    using assms(1) by (simp add: upload_batch_failed init_uploader_def)
  have w0: "upload_worker_tick 2 f t1 ?s0 = Done () ?s1"
    by (simp add: upload_worker_tick_def d0 u0)
  have d1: "drain 2 ?s1 = Done [C, A] (?s1\<lparr>upload_queue := [B]\<rparr>)"
    by (simp add: drain_def with_lock_def slice_to_def del_slice_to_def init_uploader_def)
  have u1: "upload_batch [C, A] g t2
               ((init_uploader t0)\<lparr>posts := [[A, B]], upload_queue := [B]\<rparr>)
             = Done () ?s2"
    using assms(2) by (simp add: upload_batch_accepted init_uploader_def)
  have w1: "upload_worker_tick 2 g t2 ?s1 = Done () ?s2"
    by (simp add: upload_worker_tick_def d1 u1)
  have q: "upload_queue ?s0 = [A, B, C]" "upload_queue ?s1 = [C, A, B]"
    "total_uploaded ?s1 = 0" "upload_queue ?s2 = [B]" "total_uploaded ?s2 = 2"
    by (simp_all add: init_uploader_def)
  from e q(1) d0 w0 q(2,3) d1 w1 q(4,5) show ?thesis by blast
qed

theorem requeue_at_tail_scenario_witness:
  "failed (Response 500 JsonValueError) \<and> accepted (Response 200 JsonValueError)
   \<and> (\<exists>s0 s1 s2.
      then_run (then_run (enqueue (sample_record ''A'') (init_uploader 0))
                 (enqueue (sample_record ''B''))) (enqueue (sample_record ''C'')) = Done () s0
    \<and> upload_queue s0 = [sample_record ''A'', sample_record ''B'', sample_record ''C'']
    \<and> drain 2 s0 = Done [sample_record ''A'', sample_record ''B'']
                         (s0\<lparr>upload_queue := [sample_record ''C'']\<rparr>)
    \<and> upload_worker_tick 2 (Response 500 JsonValueError) 1 s0 = Done () s1
    \<and> upload_queue s1 = [sample_record ''C'', sample_record ''A'', sample_record ''B'']
    \<and> total_uploaded s1 = 0
    \<and> drain 2 s1 = Done [sample_record ''C'', sample_record ''A'']
                         (s1\<lparr>upload_queue := [sample_record ''B'']\<rparr>)
    \<and> upload_worker_tick 2 (Response 200 JsonValueError) 2 s1 = Done () s2
    \<and> upload_queue s2 = [sample_record ''B''] \<and> total_uploaded s2 = 2)"
  using requeue_at_tail_scenario [of "Response 500 JsonValueError" "Response 200 JsonValueError"
      "sample_record ''A''" 0 "sample_record ''B''" "sample_record ''C''" 1 2]
  by simp

theorem requeue_order_counterexample:
  "upload_queue (state_of (upload_worker_tick 2 (Response 500 JsonValueError) 1
      (state_of (then_run (then_run (enqueue (sample_record ''A'') (init_uploader 0))
                   (enqueue (sample_record ''B''))) (enqueue (sample_record ''C''))))))
     = [sample_record ''C'', sample_record ''A'', sample_record ''B'']
   \<and> [sample_record ''C'', sample_record ''A'', sample_record ''B'']
       \<noteq> [sample_record ''A'', sample_record ''B'', sample_record ''C'']"
  by (simp add: upload_worker_tick_def drain_def slice_to_def del_slice_to_def with_lock_def
      upload_batch_def handle_outcome_def post_request_def requeue_def enqueue_def then_run_def
      init_uploader_def sample_record_def)

section \<open>Network I/O on the enqueue paths\<close>

lemma posts_bind_run:
  assumes "posts (state_of m) = p" and "\<And>a s'. posts (state_of (f a s')) = posts s'"
  shows "posts (state_of (bind_run m f)) = p"
  using assms by (cases m) simp_all

lemma enqueue_posts: "posts (state_of (enqueue r s)) = posts s"
  by (simp add: enqueue_def with_lock_def)

lemma add_group_posts: "posts (state_of (add_group d s)) = posts s"
  by (simp add: add_group_def enqueue_posts split: option.splits)

lemma add_telemetry_posts: "posts (state_of (add_telemetry node_id packet ts s)) = posts s"
  unfolding add_telemetry_def
  by (auto split: option.splits pyval.splits intro!: posts_bind_run simp add: add_group_posts)

lemma returns_free_bind:
  assumes "returns_free m" and "\<And>a s'. \<not> queue_lock s' \<Longrightarrow> returns_free (f a s')"
  shows "returns_free (bind_run m f)"
  using assms by (cases m) simp_all

lemma returns_free_returns: "returns_free m \<Longrightarrow> returns m"
  by (cases m) simp_all

lemma add_group_returns_free: "\<not> queue_lock s \<Longrightarrow> returns_free (add_group d s)"
  by (simp add: add_group_def enqueue_free split: option.splits)

lemma add_telemetry_returns_free:
  "\<not> queue_lock s \<Longrightarrow> returns_free (add_telemetry node_id packet ts s)"
  unfolding add_telemetry_def
  by (auto split: option.splits pyval.splits intro!: returns_free_bind
      simp add: add_group_returns_free)

text \<open>
  C9. \<open>add_telemetry\<close> makes no POST, for any packet and any state; entered with the
  lock free it returns; and it returns in the state where a POST of the worker is in
  flight, since the worker has released the lock before it posts.
  \<open>SupabaseUploader.add_reading\<close> makes no POST while the queue, with the new reading,
  stays below \<open>BATCH_SIZE\<close>; once it reaches \<open>BATCH_SIZE\<close>, \<open>add_reading\<close> itself posts all
  pending readings before it returns.
\<close>

theorem enqueue_network_io:
  "posts (state_of (add_telemetry node_id packet ts s)) = posts s
   \<and> (\<not> queue_lock s \<longrightarrow> returns (add_telemetry node_id packet ts s))
   \<and> (\<not> queue_lock s0 \<and> drain max_n s0 = Done batch s1 \<longrightarrow>
        returns (add_telemetry node_id packet ts (post_request batch s1)))
   \<and> sb_posts (add_reading batch_size reading outcome u) =
       (if int (length (pending_readings u)) + 1 < batch_size then sb_posts u
        else sb_posts u @ [map reading_payload (pending_readings u @ [reading])])"
proof (intro conjI)
  show "posts (state_of (add_telemetry node_id packet ts s)) = posts s"
    by (rule add_telemetry_posts)
next
  show "\<not> queue_lock s \<longrightarrow> returns (add_telemetry node_id packet ts s)"
    by (simp add: add_telemetry_returns_free returns_free_returns)
next
  show "\<not> queue_lock s0 \<and> drain max_n s0 = Done batch s1 \<longrightarrow>
        returns (add_telemetry node_id packet ts (post_request batch s1))"
  proof (rule impI)
    assume h: "\<not> queue_lock s0 \<and> drain max_n s0 = Done batch s1"
    then have "\<not> queue_lock s1"
      using drain_leaves_lock_free [of s0 max_n batch s1] by simp
    then have "\<not> queue_lock (post_request batch s1)"
      by (simp add: post_request_def)
    then show "returns (add_telemetry node_id packet ts (post_request batch s1))"
      by (simp add: add_telemetry_returns_free returns_free_returns)
  qed
next
  show "sb_posts (add_reading batch_size reading outcome u) =
       (if int (length (pending_readings u)) + 1 < batch_size then sb_posts u
        else sb_posts u @ [map reading_payload (pending_readings u @ [reading])])"
    by (cases outcome)
       (auto simp add: add_reading_def sb_upload_batch_def Let_def
         split: json_result.splits pyval.splits)
qed

theorem enqueue_network_io_witness:
  "posts (state_of (add_telemetry ''!a1'' sample_packet ''2025-01-01T00:00:00+00:00''
      (init_uploader 0))) = []
   \<and> \<not> queue_lock (init_uploader 0 :: pydict uploader)
   \<and> returns (add_telemetry ''!a1'' sample_packet ''2025-01-01T00:00:00+00:00'' (init_uploader 0))
   \<and> drain 2 ((init_uploader 0)\<lparr>upload_queue := [sample_record ''A'']\<rparr>)
       = Done [sample_record ''A''] (init_uploader 0)
   \<and> returns (add_telemetry ''!a1'' sample_packet ''2025-01-01T00:00:00+00:00''
        (post_request [sample_record ''A''] (init_uploader 0)))
   \<and> sb_posts (add_reading 50 sample_reading (Response 200 (JsonValue (VDict []))) init_supabase)
       = []"
proof -
  have d: "drain 2 ((init_uploader 0)\<lparr>upload_queue := [sample_record ''A'']\<rparr>)
       = Done [sample_record ''A''] (init_uploader 0)"
    by (simp add: drain_def with_lock_def slice_to_def del_slice_to_def init_uploader_def)
  from enqueue_network_io [of "''!a1''" sample_packet "''2025-01-01T00:00:00+00:00''"
      "init_uploader 0" "(init_uploader 0)\<lparr>upload_queue := [sample_record ''A'']\<rparr>" 2
      "[sample_record ''A'']" "init_uploader 0" 50 sample_reading
      "Response 200 (JsonValue (VDict []))" init_supabase] d
  show ?thesis by (simp add: init_uploader_def init_supabase_def)
qed

theorem enqueue_path_counterexample:
  "sb_posts (add_reading 2 sample_reading (Response 200 (JsonValue (VDict [])))
      (init_supabase\<lparr>pending_readings := [sample_reading]\<rparr>))
     = [[reading_payload sample_reading, reading_payload sample_reading]]
   \<and> sb_posts (init_supabase\<lparr>pending_readings := [sample_reading]\<rparr>) = []
   \<and> reading_payload sample_reading
       = [(''sensor_id'', VStr ''test_sensor''), (''timestamp'', VStr ''2025-01-01T00:00:00+00:00''),
          (''battery_level'', VInt 85)]
   \<and> shutdown RequestException 9 ((init_uploader 0)\<lparr>upload_queue := [sample_record ''A'']\<rparr>)
       = Blocked (shutdown_in_flight ((init_uploader 0)\<lparr>upload_queue := [sample_record ''A'']\<rparr>))
   \<and> posts (shutdown_in_flight ((init_uploader 0)\<lparr>upload_queue := [sample_record ''A'']\<rparr>))
       = [[sample_record ''A'']]
   \<and> \<not> returns (add_telemetry ''!a1'' sample_packet ''2025-01-01T00:00:00+00:00''
        (shutdown_in_flight ((init_uploader 0)\<lparr>upload_queue := [sample_record ''A'']\<rparr>)))"
  by (simp add: add_reading_def sb_upload_batch_def init_supabase_def reading_payload_def
      opt_field_def sample_reading_def shutdown_def shutdown_in_flight_def upload_batch_def
      handle_outcome_def post_request_def requeue_def with_lock_def init_uploader_def
      add_telemetry_def add_group_def enqueue_def sample_packet_def dict_has_def dict_get_def)

end
